theory Spec2Isabelle
  imports Complex_Main "HOL-Library.Char_ord" "HOL-Library.List_Lexorder" "HOL-Library.Sublist"
begin

section \<open>Python values used by the fighter service\<close>

text \<open>
  Exceptions of the source become values. \<open>KeyError\<close> carries the missing column or key,
  \<open>PipelineError\<close> stands for anything the unpickled model raises while scoring.
\<close>

datatype error = ValueError | OverflowError | KeyError string | PipelineError

text \<open>
  A numeric cell of a table is a float. Finite floats are modelled as reals (rounding is not
  modelled); the three special floats are kept apart, because the source compares with
  \<open>np.NaN\<close> and converts with \<open>int\<close>.
\<close>

datatype cell = NaN | PInf | NInf | Val real

text \<open>Python's \<open>a != b\<close> on floats: a comparison with NaN on either side is never equal.\<close>

fun cell_ne :: "cell \<Rightarrow> cell \<Rightarrow> bool" where
  "cell_ne NaN b = True"
| "cell_ne a NaN = True"
| "cell_ne a b = (a \<noteq> b)"

text \<open>Python's \<open>int(x)\<close> on a float: truncation towards zero, an exception on NaN and infinity.\<close>

fun py_int :: "cell \<Rightarrow> error + int" where
  "py_int NaN = Inl ValueError"
| "py_int PInf = Inl OverflowError"
| "py_int NInf = Inl OverflowError"
| "py_int (Val x) = Inr (if 0 \<le> x then \<lfloor>x\<rfloor> else \<lceil>x\<rceil>)"

definition digit_char :: "nat \<Rightarrow> char" where
  "digit_char d = ''0123456789'' ! d"

fun str_nat :: "nat \<Rightarrow> string" where
  "str_nat n = (if n < 10 then [digit_char n] else str_nat (n div 10) @ [digit_char (n mod 10)])"

declare str_nat.simps [simp del]

text \<open>Python's \<open>str(i)\<close> on an int.\<close>

definition str_int :: "int \<Rightarrow> string" where
  "str_int i = (if i < 0 then CHR ''-'' # str_nat (nat (- i)) else str_nat (nat i))"

text \<open>
  Python's \<open>str(x)\<close> on a float. The shortest round-trip printing of a finite float is
  library code; it is the parameter \<open>fmt\<close>.
\<close>

fun str_float :: "(real \<Rightarrow> string) \<Rightarrow> cell \<Rightarrow> string" where
  "str_float fmt NaN = ''nan''"
| "str_float fmt PInf = ''inf''"
| "str_float fmt NInf = ''-inf''"
| "str_float fmt (Val x) = fmt x"

text \<open>
  \<open>str.strip()\<close>: leading and trailing whitespace removed. Strings are byte lists here, so
  the whitespace is the ASCII part of Python's: tab to carriage return, the four separators
  28 to 31, and the blank.
\<close>

definition is_space :: "char \<Rightarrow> bool" where
  "is_space c = (let n = (of_char c :: nat) in (9 \<le> n \<and> n \<le> 13) \<or> (28 \<le> n \<and> n \<le> 32))"

definition strip :: "string \<Rightarrow> string" where
  "strip s = rev (dropWhile is_space (rev (dropWhile is_space s)))"

text \<open>
  Truthiness of an argument that is a string or \<open>None\<close> (a dropdown without a selection
  hands \<open>None\<close> to the callbacks): \<open>None\<close> and the empty string are false.
\<close>

fun truthy :: "string option \<Rightarrow> bool" where
  "truthy None = False"
| "truthy (Some s) = (s \<noteq> [])"

text \<open>Float addition and division with the special values of IEEE arithmetic (numpy raises
  nothing on a division by zero).\<close>

fun cell_add :: "cell \<Rightarrow> cell \<Rightarrow> cell" where
  "cell_add NaN b = NaN"
| "cell_add a NaN = NaN"
| "cell_add PInf NInf = NaN"
| "cell_add NInf PInf = NaN"
| "cell_add PInf b = PInf"
| "cell_add NInf b = NInf"
| "cell_add a PInf = PInf"
| "cell_add a NInf = NInf"
| "cell_add (Val x) (Val y) = Val (x + y)"

fun cell_div :: "cell \<Rightarrow> cell \<Rightarrow> cell" where
  "cell_div NaN b = NaN"
| "cell_div a NaN = NaN"
| "cell_div (Val x) (Val y) =
     (if y \<noteq> 0 then Val (x / y) else if x = 0 then NaN else if 0 < x then PInf else NInf)"
| "cell_div (Val x) b = Val 0"
| "cell_div PInf (Val y) = (if 0 \<le> y then PInf else NInf)"
| "cell_div NInf (Val y) = (if 0 \<le> y then NInf else PInf)"
| "cell_div a b = NaN"

section \<open>The tables read at startup\<close>

text \<open>
  One row of \<open>csv/fighters.csv\<close>: one fighter in one fight. The columns the source names
  are fields; every other numeric column (the per-fight statistics and the derived
  opponent and ratio columns) is an entry of \<open>stats\<close>, in column order. The column
  \<open>is_winner\<close> is dropped before the service reads anything from it and is left out.
  A missing \<open>Stance\<close> is \<open>None\<close>.
\<close>

record fight_row =
  fighter :: string
  weight_class :: string
  date :: string
  Reach_cms :: cell
  Height_cms :: cell
  wins :: cell
  losses :: cell
  Stance :: "string option"
  stats :: "(string \<times> cell) list"

text \<open>A value of a bout row: a text column (\<open>None\<close> when missing) or a numeric column.\<close>

datatype val = Txt "string option" | Numv cell

text \<open>
  What the unpickled pipeline and the explainer return for one row: the two class
  probabilities and the attribution of every encoded feature towards class \<open>True\<close>, in the
  order of the encoded columns.
\<close>

record row_score =
  proba_True :: real
  proba_False :: real
  shap_True :: "(string \<times> real) list"

text \<open>
  The state of \<open>FighterService\<close>, one field per attribute. \<open>pipeline\<close> is the unpickled
  encode, impute, classify pipeline together with its tree explainer: library code, taken
  as a function on the selected feature values of one row (each of its steps transforms a
  row without looking at the other rows).
\<close>

record service =
  fighters_df :: "fight_row list"
  fighters :: "string list"
  weight_to_fighters :: "string \<rightharpoonup> string list"
  fighters_to_nicks :: "string \<rightharpoonup> string option"
  feature_to_name :: "string \<rightharpoonup> string"
  pipeline :: "val list \<Rightarrow> error + row_score"
  features :: "string list"
  latest_fights :: "fight_row list"
  fighters_to_reach :: "string \<rightharpoonup> string"
  fighters_to_height :: "string \<rightharpoonup> string"
  fighters_to_wins :: "string \<rightharpoonup> string"
  fighters_to_losses :: "string \<rightharpoonup> string"

section \<open>Construction\<close>

text \<open>\<open>defaultdict(list)\<close> filled by \<open>d[w].append(f)\<close> over the rows.\<close>

definition append_fighter :: "fight_row \<Rightarrow> (string \<rightharpoonup> string list) \<Rightarrow> (string \<rightharpoonup> string list)" where
  "append_fighter r m =
     m(weight_class r \<mapsto> (case m (weight_class r) of None \<Rightarrow> [] | Some fs \<Rightarrow> fs) @ [fighter r])"

definition make_weight_to_fighters :: "fight_row list \<Rightarrow> (string \<rightharpoonup> string list)" where
  "make_weight_to_fighters df = fold append_fighter df Map.empty"

text \<open>A dict comprehension over pairs: a later pair replaces an earlier one with the same key.\<close>

definition dict_of :: "('k \<times> 'v) list \<Rightarrow> ('k \<rightharpoonup> 'v)" where
  "dict_of kvs = fold (\<lambda>(k, v) m. m(k \<mapsto> v)) kvs Map.empty"

text \<open>
  \<open>prefix_re.match(col)\<close> for \<open>.*(_opponent)|(_ratio)$\<close>: the alternation binds weakest, so
  a column matches when \<open>_opponent\<close> occurs in it or when it is \<open>_ratio\<close> itself (column
  names hold no line break).
\<close>

definition prefix_re_match :: "string \<Rightarrow> bool" where
  "prefix_re_match col = (sublist ''_opponent'' col \<or> col = ''_ratio'')"

definition individual :: "fight_row \<Rightarrow> fight_row" where
  "individual r = r\<lparr>stats := filter (\<lambda>(k, c). \<not> prefix_re_match k) (stats r)\<rparr>"

text \<open>
  \<open>groupby("fighter").tail(1)\<close>: the last row of every fighter, in the order of the frame.
\<close>

fun groupby_tail1 :: "fight_row list \<Rightarrow> fight_row list" where
  "groupby_tail1 [] = []"
| "groupby_tail1 (r # rs) =
     (if fighter r \<in> set (map fighter rs) then groupby_tail1 rs else r # groupby_tail1 rs)"

text \<open>
  \<open>sort_values(by="date")\<close> on the date strings. Rows of equal date are kept in table
  order here; pandas leaves their order open.
\<close>

definition make_latest_fights :: "fight_row list \<Rightarrow> fight_row list" where
  "make_latest_fights df = groupby_tail1 (sort_key date (map individual df))"

text \<open>
  The four formatting comprehensions. The test \<open>r != np.NaN\<close> is written as the source
  has it, with the float comparison \<open>cell_ne\<close>.
\<close>

definition fmt_cms :: "(real \<Rightarrow> string) \<Rightarrow> cell \<Rightarrow> string" where
  "fmt_cms fmt r = (if cell_ne r NaN then str_float fmt r @ '' cms'' else ''-'')"

definition fmt_count :: "cell \<Rightarrow> error + string" where
  "fmt_count w =
     (if cell_ne w NaN then (case py_int w of Inl e \<Rightarrow> Inl e | Inr i \<Rightarrow> Inr (str_int i))
      else Inr ''-'')"

text \<open>A comprehension whose body may raise: the first exception ends it.\<close>

fun count_pairs :: "(fight_row \<Rightarrow> cell) \<Rightarrow> fight_row list \<Rightarrow> error + (string \<times> string) list" where
  "count_pairs col [] = Inr []"
| "count_pairs col (r # rs) =
     (case fmt_count (col r) of
        Inl e \<Rightarrow> Inl e
      | Inr s \<Rightarrow> (case count_pairs col rs of Inl e \<Rightarrow> Inl e | Inr kvs \<Rightarrow> Inr ((fighter r, s) # kvs)))"

text \<open>
  The median of a column without its NaN cells (NaN when nothing is left), and the
  replacement of the NaN cells by it.
\<close>

fun cell_le :: "cell \<Rightarrow> cell \<Rightarrow> bool" where
  "cell_le NaN b = False"
| "cell_le a NaN = False"
| "cell_le NInf b = True"
| "cell_le a PInf = True"
| "cell_le (Val x) (Val y) = (x \<le> y)"
| "cell_le a b = False"

fun insort_cell :: "cell \<Rightarrow> cell list \<Rightarrow> cell list" where
  "insort_cell c [] = [c]"
| "insort_cell c (d # ds) = (if cell_le c d then c # d # ds else d # insort_cell c ds)"

definition median :: "cell list \<Rightarrow> cell" where
  "median cs =
     (let vs = foldr insort_cell (filter (\<lambda>c. c \<noteq> NaN) cs) []; n = length vs
      in if n = 0 then NaN
         else if odd n then vs ! (n div 2)
         else cell_div (cell_add (vs ! (n div 2 - 1)) (vs ! (n div 2))) (Val 2))"

definition fill_nan :: "cell \<Rightarrow> cell \<Rightarrow> cell" where
  "fill_nan m c = (if c = NaN then m else c)"

definition processing :: "fight_row list \<Rightarrow> fight_row list" where
  "processing df =
     (let df1 = map (\<lambda>r. r\<lparr>Reach_cms := fill_nan (median (map Reach_cms df)) (Reach_cms r)\<rparr>) df
      in map (\<lambda>r. r\<lparr>Height_cms := fill_nan (median (map Height_cms df1)) (Height_cms r)\<rparr>) df1)"

text \<open>
  \<open>__init__\<close>. The files are arguments: the rows of the fighter table, the (name, nick)
  rows of the nickname table and the three pickles. \<open>tuple(set(...))\<close> keeps one entry per
  name in an order Python leaves open; \<open>remdups\<close> stands for it.
\<close>

definition init ::
  "(real \<Rightarrow> string) \<Rightarrow> fight_row list \<Rightarrow> (string \<times> string option) list \<Rightarrow> (string \<rightharpoonup> string) \<Rightarrow>
   (val list \<Rightarrow> error + row_score) \<Rightarrow> string list \<Rightarrow> error + service" where
  "init fmt csv sherdog f2n pipe feats =
     (let latest = make_latest_fights csv
      in case count_pairs wins latest of
           Inl e \<Rightarrow> Inl e
         | Inr ws \<Rightarrow>
             (case count_pairs losses latest of
                Inl e \<Rightarrow> Inl e
              | Inr ls \<Rightarrow>
                  Inr \<lparr> fighters_df = processing csv,
                        fighters = remdups (map fighter csv),
                        weight_to_fighters = make_weight_to_fighters csv,
                        fighters_to_nicks = dict_of sherdog,
                        feature_to_name = f2n,
                        pipeline = pipe,
                        features = feats,
                        latest_fights = latest,
                        fighters_to_reach = dict_of (map (\<lambda>r. (fighter r, fmt_cms fmt (Reach_cms r))) latest),
                        fighters_to_height = dict_of (map (\<lambda>r. (fighter r, fmt_cms fmt (Height_cms r))) latest),
                        fighters_to_wins = dict_of ws,
                        fighters_to_losses = dict_of ls \<rparr>))"

section \<open>Lookups\<close>

text \<open>
  \<open>getNickname\<close>. A missing nick is the NaN object pandas stores, which the membership
  test finds by identity.
\<close>

definition getNickname :: "service \<Rightarrow> string \<Rightarrow> string" where
  "getNickname svc f =
     (case fighters_to_nicks svc f of
        None \<Rightarrow> []
      | Some nick \<Rightarrow> (case nick of None \<Rightarrow> [] | Some n \<Rightarrow> if n = ''nan'' then [] else n))"

definition getReach :: "service \<Rightarrow> string \<Rightarrow> string" where
  "getReach svc f =
     (case fighters_to_reach svc f of
        None \<Rightarrow> ''-''
      | Some v \<Rightarrow> (let res = strip v in if res \<in> set [''nan'', ''nan cms''] then ''-'' else res))"

definition getHeight :: "service \<Rightarrow> string \<Rightarrow> string" where
  "getHeight svc f =
     (case fighters_to_height svc f of
        None \<Rightarrow> ''-''
      | Some v \<Rightarrow> (let res = strip v in if res \<in> set [''nan'', ''nan cms''] then ''-'' else res))"

definition getWins :: "service \<Rightarrow> string \<Rightarrow> string" where
  "getWins svc f = (case fighters_to_wins svc f of None \<Rightarrow> ''-'' | Some v \<Rightarrow> v)"

definition getLosses :: "service \<Rightarrow> string \<Rightarrow> string" where
  "getLosses svc f = (case fighters_to_losses svc f of None \<Rightarrow> ''-'' | Some v \<Rightarrow> v)"

text \<open>
  \<open>getAllFighters\<close>. Reading a \<open>defaultdict\<close> at a key it does not have stores the default
  under that key, so the call returns the service as well.
\<close>

definition getAllFighters :: "service \<Rightarrow> string option \<Rightarrow> string list \<times> service" where
  "getAllFighters svc weight_class_arg =
     (if \<not> truthy weight_class_arg then (fighters svc, svc)
      else let w = the weight_class_arg
           in case weight_to_fighters svc w of
                Some fs \<Rightarrow> (fs, svc)
              | None \<Rightarrow> ([], svc\<lparr>weight_to_fighters := (weight_to_fighters svc)(w \<mapsto> [])\<rparr>))"

definition getWeightClasses :: "(string \<times> string) list" where
  "getWeightClasses =
     [(''Heavyweight'', ''Heavyweight''),
      (''Light Heavyweight (205 lbs.)'', ''Light Heavyweight''),
      (''Middleweight (185 lbs.)'', ''Middleweight''),
      (''Welterweight (170 lbs.)'', ''Welterweight''),
      (''Lightweight (155 lbs.)'', ''Lightweight''),
      (''Featherweight (145 lbs.)'', ''Featherweight''),
      (''Bantamweight (135 lbs.)'', ''Bantamweight''),
      (''Flyweight (125 lbs.)'', ''Flyweight''),
      (''Women's Featherweight (145 lbs.)'', ''Women's Featherweight''),
      (''Women's Bantamweight (135 lbs.)'', ''Women's Bantamweight''),
      (''Women's Flyweight (125 lbs.)'', ''Women's Flyweight''),
      (''Women's Strawweight (115 lbs.)'', ''Women's Strawweight''),
      (''Open Weight'', '''')]"

definition getFightersDF :: "service \<Rightarrow> fight_row list" where
  "getFightersDF svc = fighters_df svc"

section \<open>The bout frame\<close>

text \<open>
  \<open>__getByFighter\<close>: the rows of the latest fights with that name (a copy, so nothing the
  caller does to it reaches the table).
\<close>

definition getByFighter :: "service \<Rightarrow> string \<Rightarrow> fight_row list" where
  "getByFighter svc fighter_name = filter (\<lambda>r. fighter r = fighter_name) (latest_fights svc)"

text \<open>The columns of a row by name, the named ones first and the statistics after them.\<close>

definition columns :: "fight_row \<Rightarrow> (string \<times> val) list" where
  "columns r =
     [(''fighter'', Txt (Some (fighter r))),
      (''weight_class'', Txt (Some (weight_class r))),
      (''date'', Txt (Some (date r))),
      (''Reach_cms'', Numv (Reach_cms r)),
      (''Height_cms'', Numv (Height_cms r)),
      (''wins'', Numv (wins r)),
      (''losses'', Numv (losses r)),
      (''Stance'', Txt (Stance r))]
     @ map (\<lambda>(k, c). (k, Numv c)) (stats r)"

text \<open>
  \<open>pd.merge(a, b, on="temp_id_", suffixes=("", "_opponent"))\<close> of two one-row frames that
  share the random key: the columns of \<open>a\<close>, then those of \<open>b\<close> with the suffix. The key
  column is dropped again at the end and is left out.
\<close>

definition merge :: "fight_row \<Rightarrow> fight_row \<Rightarrow> (string \<times> val) list" where
  "merge a b = columns a @ map (\<lambda>(k, v). (k @ ''_opponent'', v)) (columns b)"

text \<open>\<open>row[k] = v\<close>: an existing column is overwritten in place, a new one goes to the end.\<close>

fun set_column :: "string \<Rightarrow> val \<Rightarrow> (string \<times> val) list \<Rightarrow> (string \<times> val) list" where
  "set_column k v [] = [(k, v)]"
| "set_column k v ((k', v') # kvs) = (if k' = k then (k, v) # kvs else (k', v') # set_column k v kvs)"

text \<open>
  The numeric columns that end in \<open>_opponent\<close>, listed before the loop starts.
\<close>

definition opponent_columns :: "(string \<times> val) list \<Rightarrow> string list" where
  "opponent_columns row =
     map fst (filter (\<lambda>(k, v). (case v of Numv c \<Rightarrow> suffix ''_opponent'' k | Txt t \<Rightarrow> False)) row)"

text \<open>
  One pass of the loop: \<open>row[col1 + "_ratio"] = (row[col1] + 1) / (row[col2] + 1)\<close>.
  Both rows of a frame have the same columns; a row without \<open>col1\<close> is outside what the
  table can hold and is reported as the \<open>KeyError\<close> pandas raises for a missing column.
\<close>

definition add_ratio :: "string \<Rightarrow> (string \<times> val) list \<Rightarrow> error + (string \<times> val) list" where
  "add_ratio col row =
     (let col2 = col; col1 = take (length col - 9) col
      in case (map_of row col1, map_of row col2) of
           (Some (Numv a), Some (Numv b)) \<Rightarrow>
             Inr (set_column (col1 @ ''_ratio'') (Numv (cell_div (cell_add a (Val 1)) (cell_add b (Val 1)))) row)
         | _ \<Rightarrow> Inl (KeyError col1))"

fun add_ratios :: "string list \<Rightarrow> (string \<times> val) list \<Rightarrow> error + (string \<times> val) list" where
  "add_ratios [] row = Inr row"
| "add_ratios (col # cols) row =
     (case add_ratio col row of Inl e \<Rightarrow> Inl e | Inr row' \<Rightarrow> add_ratios cols row')"

text \<open>\<open>row["Stance"] + "-" + row["Stance_opponent"]\<close>; a missing stance makes the sum missing.\<close>

definition stance_config :: "(string \<times> val) list \<Rightarrow> val" where
  "stance_config row =
     (case (map_of row ''Stance'', map_of row ''Stance_opponent'') of
        (Some (Txt (Some s)), Some (Txt (Some t))) \<Rightarrow> Txt (Some (s @ ''-'' @ t))
      | _ \<Rightarrow> Txt None)"

definition bout_row :: "fight_row \<Rightarrow> fight_row \<Rightarrow> error + (string \<times> val) list" where
  "bout_row a b =
     (let row = merge a b
      in case add_ratios (opponent_columns row) row of
           Inl e \<Rightarrow> Inl e
         | Inr row' \<Rightarrow> Inr (set_column ''stance_config'' (stance_config row') row'))"

text \<open>
  \<open>__makeBoutDf\<close>: \<open>None\<close> unless each name has exactly one latest row; otherwise the frame
  of the two orientations, first against second and second against first.
\<close>

definition makeBoutDf ::
  "service \<Rightarrow> string \<Rightarrow> string \<Rightarrow> error + ((string \<times> val) list \<times> (string \<times> val) list) option" where
  "makeBoutDf svc fighter1 fighter2 =
     (let fighter1_df = getByFighter svc fighter1; fighter2_df = getByFighter svc fighter2
      in if length fighter1_df \<noteq> 1 \<or> length fighter2_df \<noteq> 1 then Inr None
         else case bout_row (hd fighter1_df) (hd fighter2_df) of
                Inl e \<Rightarrow> Inl e
              | Inr row1 \<Rightarrow>
                  (case bout_row (hd fighter2_df) (hd fighter1_df) of
                     Inl e \<Rightarrow> Inl e
                   | Inr row2 \<Rightarrow> Inr (Some (row1, row2))))"

section \<open>Scoring and prediction\<close>

text \<open>\<open>bout[self.__features]\<close> on one row: the feature columns in order, \<open>KeyError\<close> when one
  is missing.\<close>

fun select :: "string list \<Rightarrow> (string \<times> val) list \<Rightarrow> error + val list" where
  "select [] row = Inr []"
| "select (f # fs) row =
     (case map_of row f of
        None \<Rightarrow> Inl (KeyError f)
      | Some v \<Rightarrow> (case select fs row of Inl e \<Rightarrow> Inl e | Inr vs \<Rightarrow> Inr (v # vs)))"

text \<open>\<open>__scoreBout\<close>: the columns are selected from the frame, then the pipeline and the
  explainer score its two rows.\<close>

definition scoreBout ::
  "service \<Rightarrow> (string \<times> val) list \<times> (string \<times> val) list \<Rightarrow> error + row_score \<times> row_score" where
  "scoreBout svc bout =
     (case select (features svc) (fst bout) of
        Inl e \<Rightarrow> Inl e
      | Inr t0 \<Rightarrow>
          (case select (features svc) (snd bout) of
             Inl e \<Rightarrow> Inl e
           | Inr t1 \<Rightarrow>
               (case pipeline svc t0 of
                  Inl e \<Rightarrow> Inl e
                | Inr s0 \<Rightarrow> (case pipeline svc t1 of Inl e \<Rightarrow> Inl e | Inr s1 \<Rightarrow> Inr (s0, s1)))))"

text \<open>The label of an encoded feature: its entry in the label table, stripped, or nothing.\<close>

definition label :: "service \<Rightarrow> string \<Rightarrow> string" where
  "label svc s = (case feature_to_name svc s of Some n \<Rightarrow> strip n | None \<Rightarrow> [])"

text \<open>
  \<open>shap_values.sort_values()\<close>: ascending by value; equal values are kept in column order
  here. \<open>index[:3]\<close> and \<open>index[-3:]\<close> are the first and the last three names.
\<close>

definition neg_shaps :: "service \<Rightarrow> (string \<times> real) list \<Rightarrow> string list" where
  "neg_shaps svc shap_values = map (label svc) (take 3 (map fst (sort_key snd shap_values)))"

definition pos_shaps :: "service \<Rightarrow> (string \<times> real) list \<Rightarrow> string list" where
  "pos_shaps svc shap_values =
     (let index = map fst (sort_key snd shap_values)
      in map (label svc) (drop (length index - 3) index))"

type_synonym prediction = "real \<times> string \<times> string list \<times> string list"

definition doPrediction :: "service \<Rightarrow> string option \<Rightarrow> string option \<Rightarrow> error + prediction" where
  "doPrediction svc red_fighter blue_fighter =
     (if truthy red_fighter \<and> \<not> truthy blue_fighter then Inr (100, the red_fighter, [], [])
      else if \<not> truthy red_fighter \<and> truthy blue_fighter then Inr (100, the blue_fighter, [], [])
      else if \<not> truthy red_fighter \<and> \<not> truthy blue_fighter then Inr (100, ''-'', [], [])
      else if red_fighter = blue_fighter then Inr (100, the red_fighter, [], [])
      else case makeBoutDf svc (the red_fighter) (the blue_fighter) of
             Inl e \<Rightarrow> Inl e
           | Inr None \<Rightarrow> Inr (100, ''-'', [], [])
           | Inr (Some bout) \<Rightarrow>
               (case scoreBout svc bout of
                  Inl e \<Rightarrow> Inl e
                | Inr (s0, s1) \<Rightarrow>
                    (let red_fighter_prob = (proba_True s0 + proba_False s1) / 2;
                         blue_fighter_prob = (proba_False s0 + proba_True s1) / 2;
                         (shap_values, winner_prob, winner) =
                           (if red_fighter_prob > blue_fighter_prob
                            then (shap_True s0, red_fighter_prob, the red_fighter)
                            else (shap_True s1, blue_fighter_prob, the blue_fighter))
                     in Inr (winner_prob * 100, winner, pos_shaps svc shap_values,
                             neg_shaps svc shap_values))))"

text \<open>
  The two calls of \<open>doPrediction\<close> that lead to the probabilities, \<open>__makeBoutDf\<close> and
  then \<open>__scoreBout\<close>, as one function: the scores of the two rows, \<open>None\<close> when there
  is no frame. It serves to state properties of the scored path.
\<close>

definition bout_scores :: "service \<Rightarrow> string \<Rightarrow> string \<Rightarrow> error + (row_score \<times> row_score) option" where
  "bout_scores svc red blue =
     (case makeBoutDf svc red blue of
        Inl e \<Rightarrow> Inl e
      | Inr None \<Rightarrow> Inr None
      | Inr (Some bout) \<Rightarrow>
          (case scoreBout svc bout of Inl e \<Rightarrow> Inl e | Inr scores \<Rightarrow> Inr (Some scores)))"

section \<open>The page callback\<close>

text \<open>
  \<open>makePrediction\<close> of \<open>pages/predict.py\<close> turns a prediction into markdown. The text is kept
  as its parts: the winner and confidence lines, the bullets under "Arguments in Favor" and
  the bullets under "Counter Arguments" (a heading is printed exactly when its bullets are).
  \<open>None\<close> is the empty markdown.
\<close>

record page =
  winner_line :: string
  confidence_line :: real
  in_favor :: "string list"
  counter_arguments :: "string list"

text \<open>\<open>a, b, c = xs\<close> raises unless there are exactly three entries.\<close>

fun unpack3 :: "'a list \<Rightarrow> error + ('a \<times> 'a \<times> 'a)" where
  "unpack3 [a, b, c] = Inr (a, b, c)"
| "unpack3 xs = Inl ValueError"

text \<open>The first label always, the second and third when not empty and not printed before.\<close>

definition bullets :: "string \<Rightarrow> string \<Rightarrow> string \<Rightarrow> string list" where
  "bullets x1 x2 x3 =
     [x1] @ (if x2 \<noteq> [] \<and> x2 \<noteq> x1 then [x2] else [])
          @ (if x3 \<noteq> [] \<and> x3 \<notin> set [x1, x2] then [x3] else [])"

definition makePrediction :: "service \<Rightarrow> string option \<Rightarrow> string option \<Rightarrow> error + page option" where
  "makePrediction svc r_fighter b_fighter =
     (case doPrediction svc r_fighter b_fighter of
        Inl e \<Rightarrow> Inl e
      | Inr (prob, winner, pos, neg) \<Rightarrow>
          if winner = ''-'' then Inr None
          else if pos \<noteq> [] \<and> neg \<noteq> [] then
            (case unpack3 pos of
               Inl e \<Rightarrow> Inl e
             | Inr (pos1, pos2, pos3) \<Rightarrow>
                 (case unpack3 neg of
                    Inl e \<Rightarrow> Inl e
                  | Inr (neg3, neg2, neg1) \<Rightarrow>
                      Inr (Some \<lparr> winner_line = winner, confidence_line = prob,
                                  in_favor = bullets pos1 pos2 pos3,
                                  counter_arguments = bullets neg1 neg2 neg3 \<rparr>)))
          else Inr (Some \<lparr> winner_line = winner, confidence_line = prob,
                            in_favor = [], counter_arguments = [] \<rparr>))"

section \<open>Calls on the service object\<close>




section \<open>The specification's reading of the weight-class filter\<close>

text \<open>
  The specification's words for the filter: the fighters whose latest record's weight class
  is the given one.
\<close>

definition fighters_with_latest_class :: "service \<Rightarrow> string \<Rightarrow> string list" where
  "fighters_with_latest_class svc w =
     map fighter (filter (\<lambda>r. weight_class r = w) (latest_fights svc))"

section \<open>A small roster\<close>

text \<open>
  Three fighters in four fights. Ann moved up from Lightweight to Welterweight; Bea and Cat
  have the same numbers; Dot's reach was never measured.
\<close>

definition ann_2018 :: fight_row where
  "ann_2018 = \<lparr> fighter = ''Ann'', weight_class = ''Lightweight'', date = ''2018-03-03'',
       Reach_cms = Val 180, Height_cms = Val 175, wins = Val 3, losses = Val 1,
       Stance = Some ''Orthodox'', stats = [(''avg_KD'', Val 1), (''avg_KD_opponent'', Val 0)] \<rparr>"

definition ann_2019 :: fight_row where
  "ann_2019 = \<lparr> fighter = ''Ann'', weight_class = ''Welterweight'', date = ''2019-05-11'',
       Reach_cms = Val 180, Height_cms = Val 175, wins = Val 4, losses = Val 1,
       Stance = Some ''Orthodox'', stats = [(''avg_KD'', Val 1), (''avg_KD_opponent'', Val 2)] \<rparr>"

definition bea_2019 :: fight_row where
  "bea_2019 = \<lparr> fighter = ''Bea'', weight_class = ''Lightweight'', date = ''2019-02-02'',
       Reach_cms = Val 170, Height_cms = Val 168, wins = Val 2, losses = Val 0,
       Stance = Some ''Southpaw'', stats = [(''avg_KD'', Val 0), (''avg_KD_opponent'', Val 1)] \<rparr>"

definition cat_2017 :: fight_row where
  "cat_2017 = \<lparr> fighter = ''Cat'', weight_class = ''Lightweight'', date = ''2017-09-09'',
       Reach_cms = Val 170, Height_cms = Val 168, wins = Val 2, losses = Val 0,
       Stance = Some ''Southpaw'', stats = [(''avg_KD'', Val 0), (''avg_KD_opponent'', Val 0)] \<rparr>"

definition dot_2019 :: fight_row where
  "dot_2019 = \<lparr> fighter = ''Dot'', weight_class = ''Flyweight'', date = ''2019-07-07'',
       Reach_cms = NaN, Height_cms = Val 160, wins = Val 1, losses = Val 0,
       Stance = None, stats = [(''avg_KD'', Val 0), (''avg_KD_opponent'', Val 0)] \<rparr>"

definition roster :: "fight_row list" where
  "roster = [ann_2018, bea_2019, ann_2019, cat_2017, dot_2019]"

text \<open>The same roster with a fighter whose latest record has no win count.\<close>

definition eve_2019 :: fight_row where
  "eve_2019 = \<lparr> fighter = ''Eve'', weight_class = ''Flyweight'', date = ''2019-08-08'',
       Reach_cms = Val 160, Height_cms = Val 158, wins = NaN, losses = Val 0,
       Stance = Some ''Orthodox'', stats = [(''avg_KD'', Val 0), (''avg_KD_opponent'', Val 0)] \<rparr>"

text \<open>The roster with an earlier Lightweight fight of Ann, her second in that class.\<close>

definition ann_2017 :: fight_row where
  "ann_2017 = \<lparr> fighter = ''Ann'', weight_class = ''Lightweight'', date = ''2017-01-01'',
       Reach_cms = Val 180, Height_cms = Val 175, wins = Val 2, losses = Val 1,
       Stance = Some ''Orthodox'', stats = [(''avg_KD'', Val 0), (''avg_KD_opponent'', Val 1)] \<rparr>"

definition longer_roster :: "fight_row list" where
  "longer_roster = roster @ [ann_2017]"

definition nicknames :: "(string \<times> string option) list" where
  "nicknames = [(''Ann'', Some ''The Hammer''), (''Bea'', None)]"

text \<open>How Python prints the whole-numbered floats of the roster.\<close>

definition whole_str :: "real \<Rightarrow> string" where
  "whole_str x = str_int \<lfloor>x\<rfloor> @ ''.0''"

text \<open>
  A fitted model for the roster: it reads the reach ratio and the win ratio, leans to the
  longer reach, and attributes to six encoded features.
\<close>

definition roster_features :: "string list" where
  "roster_features = [''Reach_cms_ratio'', ''wins_ratio'']"

definition roster_shap :: "(string \<times> real) list" where
  "roster_shap =
     [(''Reach_cms'', - 3 / 10), (''Reach_cms_opponent'', - 2 / 10),
      (''Height_cms_ratio'', - 1 / 10), (''Height_cms'', 1 / 10),
      (''wins'', 2 / 10), (''wins_ratio'', 3 / 10)]"

definition roster_score :: "real \<Rightarrow> row_score" where
  "roster_score p = \<lparr> proba_True = p, proba_False = 1 - p, shap_True = roster_shap \<rparr>"

definition roster_pipeline :: "val list \<Rightarrow> error + row_score" where
  "roster_pipeline vs =
     (case vs of
        [Numv (Val r), Numv (Val w)] \<Rightarrow>
          Inr (roster_score (if 1 < r then 7 / 10 else if r < 1 then 3 / 10 else 1 / 2))
      | _ \<Rightarrow> Inl PipelineError)"

definition roster_labels :: "string \<rightharpoonup> string" where
  "roster_labels =
     [''Reach_cms'' \<mapsto> ''Reach'', ''Reach_cms_opponent'' \<mapsto> ''Reach '',
      ''Height_cms_ratio'' \<mapsto> ''Height'', ''Height_cms'' \<mapsto> ''Height'',
      ''wins'' \<mapsto> ''Wins'', ''wins_ratio'' \<mapsto> ''Wins'']"

definition roster_service :: service where
  "roster_service =
     projr (init whole_str roster nicknames roster_labels roster_pipeline roster_features)"

definition longer_service :: service where
  "longer_service =
     projr (init whole_str longer_roster nicknames roster_labels roster_pipeline roster_features)"

section \<open>Facts about the small roster\<close>

lemmas roster_rows = ann_2018_def ann_2019_def bea_2019_def cat_2017_def dot_2019_def

lemmas str_int_eval = str_int_def str_nat.simps digit_char_def

lemma latest_roster:
  "make_latest_fights roster =
     [individual cat_2017, individual bea_2019, individual ann_2019, individual dot_2019]"
  by (simp add: make_latest_fights_def roster_def individual_def roster_rows)

lemma wins_roster:
  "count_pairs wins (make_latest_fights roster) =
     Inr [(''Cat'', ''2''), (''Bea'', ''2''), (''Ann'', ''4''), (''Dot'', ''1'')]"
  by (simp add: latest_roster individual_def roster_rows fmt_count_def str_int_eval)

lemma losses_roster:
  "count_pairs losses (make_latest_fights roster) =
     Inr [(''Cat'', ''0''), (''Bea'', ''0''), (''Ann'', ''1''), (''Dot'', ''0'')]"
  by (simp add: latest_roster individual_def roster_rows fmt_count_def str_int_eval)

lemma roster_init:
  "init whole_str roster nicknames roster_labels roster_pipeline roster_features = Inr roster_service"
  by (simp add: roster_service_def init_def Let_def wins_roster losses_roster)

lemma roster_service_eq:
  "roster_service =
     \<lparr> fighters_df = processing roster,
       fighters = remdups (map fighter roster),
       weight_to_fighters = make_weight_to_fighters roster,
       fighters_to_nicks = dict_of nicknames,
       feature_to_name = roster_labels,
       pipeline = roster_pipeline,
       features = roster_features,
       latest_fights = make_latest_fights roster,
       fighters_to_reach =
         dict_of (map (\<lambda>r. (fighter r, fmt_cms whole_str (Reach_cms r))) (make_latest_fights roster)),
       fighters_to_height =
         dict_of (map (\<lambda>r. (fighter r, fmt_cms whole_str (Height_cms r))) (make_latest_fights roster)),
       fighters_to_wins = dict_of [(''Cat'', ''2''), (''Bea'', ''2''), (''Ann'', ''4''), (''Dot'', ''1'')],
       fighters_to_losses = dict_of [(''Cat'', ''0''), (''Bea'', ''0''), (''Ann'', ''1''), (''Dot'', ''0'')] \<rparr>"
  unfolding roster_service_def init_def Let_def wins_roster losses_roster by simp

lemma roster_nicks:
  "fighters_to_nicks roster_service = [''Ann'' \<mapsto> Some ''The Hammer'', ''Bea'' \<mapsto> None]"
  by (simp add: roster_service_eq nicknames_def dict_of_def)

lemma roster_reach:
  "fighters_to_reach roster_service =
     [''Cat'' \<mapsto> ''170.0 cms'', ''Bea'' \<mapsto> ''170.0 cms'', ''Ann'' \<mapsto> ''180.0 cms'',
      ''Dot'' \<mapsto> ''nan cms'']"
  by (simp add: roster_service_eq latest_roster dict_of_def individual_def roster_rows fmt_cms_def
      whole_str_def str_int_eval)

lemma roster_height:
  "fighters_to_height roster_service =
     [''Cat'' \<mapsto> ''168.0 cms'', ''Bea'' \<mapsto> ''168.0 cms'', ''Ann'' \<mapsto> ''175.0 cms'',
      ''Dot'' \<mapsto> ''160.0 cms'']"
  by (simp add: roster_service_eq latest_roster dict_of_def individual_def roster_rows fmt_cms_def
      whole_str_def str_int_eval)

lemma roster_wins:
  "fighters_to_wins roster_service =
     [''Cat'' \<mapsto> ''2'', ''Bea'' \<mapsto> ''2'', ''Ann'' \<mapsto> ''4'', ''Dot'' \<mapsto> ''1'']"
  by (simp add: roster_service_eq dict_of_def)

lemma roster_losses:
  "fighters_to_losses roster_service =
     [''Cat'' \<mapsto> ''0'', ''Bea'' \<mapsto> ''0'', ''Ann'' \<mapsto> ''1'', ''Dot'' \<mapsto> ''0'']"
  by (simp add: roster_service_eq dict_of_def)

lemma roster_weights:
  "weight_to_fighters roster_service =
     [''Lightweight'' \<mapsto> [''Ann'', ''Bea'', ''Cat''], ''Welterweight'' \<mapsto> [''Ann''],
      ''Flyweight'' \<mapsto> [''Dot'']]"
  by (auto simp add: roster_service_eq make_weight_to_fighters_def roster_def roster_rows
      append_fighter_def fun_eq_iff)

lemma roster_fighters: "fighters roster_service = [''Bea'', ''Ann'', ''Cat'', ''Dot'']"
  by (simp add: roster_service_eq roster_def roster_rows)

lemma roster_latest:
  "latest_fights roster_service =
     [individual cat_2017, individual bea_2019, individual ann_2019, individual dot_2019]"
  by (simp add: roster_service_eq latest_roster)

section \<open>Lookups of unknown fighters\<close>

text \<open>
  C5. A name that is not a key of a lookup table gets the placeholder of that table's
  accessor: the empty string for the nickname, \<open>"-"\<close> for reach, height, wins and losses.
  The accessors have no raising statement on that path; each returns a string.
\<close>

theorem absent_fighter_placeholder:
  "(fighters_to_nicks svc f = None \<longrightarrow> getNickname svc f = [])
   \<and> (fighters_to_reach svc f = None \<longrightarrow> getReach svc f = ''-'')
   \<and> (fighters_to_height svc f = None \<longrightarrow> getHeight svc f = ''-'')
   \<and> (fighters_to_wins svc f = None \<longrightarrow> getWins svc f = ''-'')
   \<and> (fighters_to_losses svc f = None \<longrightarrow> getLosses svc f = ''-'')"
  by (simp add: getNickname_def getReach_def getHeight_def getWins_def getLosses_def)

theorem absent_fighter_placeholder_witness:
  "fighters_to_nicks roster_service ''Zed'' = None
   \<and> fighters_to_reach roster_service ''Zed'' = None
   \<and> fighters_to_height roster_service ''Zed'' = None
   \<and> fighters_to_wins roster_service ''Zed'' = None
   \<and> fighters_to_losses roster_service ''Zed'' = None
   \<and> getNickname roster_service ''Zed'' = []
   \<and> getReach roster_service ''Zed'' = ''-''
   \<and> getHeight roster_service ''Zed'' = ''-''
   \<and> getWins roster_service ''Zed'' = ''-''
   \<and> getLosses roster_service ''Zed'' = ''-''"
  using absent_fighter_placeholder [of roster_service "''Zed''"]
  by (simp add: roster_nicks roster_reach roster_height roster_wins roster_losses)

section \<open>Predictions that need no model\<close>

text \<open>
  C6. With one side empty and the other a non-empty string \<open>f\<close>, known or not, the
  prediction is confidence 100.0, winner \<open>f\<close> and two empty factor lists, in both argument
  orders.
\<close>

theorem one_side_empty:
  "f \<noteq> [] \<Longrightarrow>
     doPrediction svc (Some f) (Some []) = Inr (100, f, [], [])
     \<and> doPrediction svc (Some []) (Some f) = Inr (100, f, [], [])"
  by (simp add: doPrediction_def)

theorem one_side_empty_witness:
  "''Zed'' \<noteq> []
   \<and> doPrediction roster_service (Some ''Zed'') (Some []) = Inr (100, ''Zed'', [], [])
   \<and> doPrediction roster_service (Some []) (Some ''Zed'') = Inr (100, ''Zed'', [], [])"
  using one_side_empty [of "''Zed''" roster_service] by simp

text \<open>
  C7. With both sides empty the prediction is confidence 100.0, the sentinel winner
  \<open>"-"\<close> and two empty factor lists; with the same non-empty name \<open>f\<close> on both sides it is
  confidence 100.0, winner \<open>f\<close> and two empty factor lists.
\<close>

theorem both_empty_or_identical:
  "doPrediction svc (Some []) (Some []) = Inr (100, ''-'', [], [])
   \<and> (f \<noteq> [] \<longrightarrow> doPrediction svc (Some f) (Some f) = Inr (100, f, [], []))"
  by (simp add: doPrediction_def)

theorem both_empty_or_identical_witness:
  "doPrediction roster_service (Some []) (Some []) = Inr (100, ''-'', [], [])
   \<and> ''Ann'' \<noteq> []
   \<and> doPrediction roster_service (Some ''Ann'') (Some ''Ann'') = Inr (100, ''Ann'', [], [])"
  using both_empty_or_identical [of roster_service "''Ann''"] by simp

section \<open>What construction stores\<close>

lemma init_fields:
  assumes "init fmt csv sherdog f2n pipe feats = Inr svc"
  shows "fighters svc = remdups (map fighter csv)"
    and "weight_to_fighters svc = make_weight_to_fighters csv"
    and "latest_fights svc = make_latest_fights csv"
    and "fighters_df svc = processing csv"
  using assms by (auto simp add: init_def Let_def split: sum.splits)

text \<open>The list a \<open>defaultdict(list)\<close> holds for a key, empty when the key is not there.\<close>

lemma append_fighter_at:
  "(case append_fighter r m w of None \<Rightarrow> [] | Some fs \<Rightarrow> fs) =
     (case m w of None \<Rightarrow> [] | Some fs \<Rightarrow> fs) @ (if weight_class r = w then [fighter r] else [])"
  by (simp add: append_fighter_def)

lemma fold_append_fighter_at:
  "(case fold append_fighter df m w of None \<Rightarrow> [] | Some fs \<Rightarrow> fs) =
     (case m w of None \<Rightarrow> [] | Some fs \<Rightarrow> fs) @ map fighter (filter (\<lambda>r. weight_class r = w) df)"
proof (induction df arbitrary: m)
  case Nil
  show ?case by simp
next
  case (Cons r df)
  have "(case fold append_fighter (r # df) m w of None \<Rightarrow> [] | Some fs \<Rightarrow> fs) =
        (case append_fighter r m w of None \<Rightarrow> [] | Some fs \<Rightarrow> fs)
          @ map fighter (filter (\<lambda>r. weight_class r = w) df)"
    using Cons.IH [of "append_fighter r m"] by simp
  then show ?case
    by (simp add: append_fighter_at)
qed

lemma getAllFighters_class:
  "w \<noteq> [] \<Longrightarrow>
     fst (getAllFighters svc (Some w)) = (case weight_to_fighters svc w of None \<Rightarrow> [] | Some fs \<Rightarrow> fs)"
  by (simp add: getAllFighters_def split: option.splits)

section \<open>The roster by weight class\<close>

lemma getAllFighters_rows:
  assumes "init fmt csv sherdog f2n pipe feats = Inr svc" and "w \<noteq> []"
  shows "fst (getAllFighters svc (Some w)) = map fighter (filter (\<lambda>r. weight_class r = w) csv)"
proof -
  have "fst (getAllFighters svc (Some w)) =
        (case make_weight_to_fighters csv w of None \<Rightarrow> [] | Some fs \<Rightarrow> fs)"
    using assms by (simp add: getAllFighters_class init_fields(2))
  also have "\<dots> = map fighter (filter (\<lambda>r. weight_class r = w) csv)"
    unfolding make_weight_to_fighters_def by (simp add: fold_append_fighter_at)
  finally show ?thesis .
qed

lemma longer_init:
  "init whole_str longer_roster nicknames roster_labels roster_pipeline roster_features
     = Inr longer_service"
proof -
  have latest: "make_latest_fights longer_roster =
     [individual cat_2017, individual bea_2019, individual ann_2019, individual dot_2019]"
    by (simp add: make_latest_fights_def longer_roster_def roster_def individual_def roster_rows
        ann_2017_def)
  have "\<exists>ws. count_pairs wins (make_latest_fights longer_roster) = Inr ws"
    and "\<exists>ls. count_pairs losses (make_latest_fights longer_roster) = Inr ls"
    unfolding latest by (simp_all add: individual_def roster_rows fmt_count_def)
  then show ?thesis
    by (auto simp add: longer_service_def init_def Let_def)
qed

text \<open>
  C3, as the code has it. For a non-empty weight class \<open>w\<close>, \<open>getAllFighters(w)\<close> returns
  exactly the fighters who have a record at \<open>w\<close> in the fighter table, the latest or an
  earlier one, and no others. For a weight class that no record has, the result is empty.
\<close>

theorem weight_class_filter:
  assumes "init fmt csv sherdog f2n pipe feats = Inr svc" and "w \<noteq> []"
  shows "set (fst (getAllFighters svc (Some w))) = fighter ` {r \<in> set csv. weight_class r = w}
         \<and> (w \<notin> weight_class ` set csv \<longrightarrow> fst (getAllFighters svc (Some w)) = [])"
proof -
  have eq: "fst (getAllFighters svc (Some w)) = map fighter (filter (\<lambda>r. weight_class r = w) csv)"
    using assms by (rule getAllFighters_rows)
  have "w \<notin> weight_class ` set csv \<Longrightarrow> filter (\<lambda>r. weight_class r = w) csv = []"
    by (auto simp add: filter_empty_conv)
  with eq show ?thesis by auto
qed

theorem weight_class_filter_witness:
  "init whole_str longer_roster nicknames roster_labels roster_pipeline roster_features
     = Inr longer_service
   \<and> ''Lightweight'' \<noteq> []
   \<and> set (fst (getAllFighters longer_service (Some ''Lightweight''))) = {''Ann'', ''Bea'', ''Cat''}
   \<and> ''Catchweight'' \<notin> weight_class ` set longer_roster
   \<and> fst (getAllFighters longer_service (Some ''Catchweight'')) = []"
proof -
  have rows: "map fighter (filter (\<lambda>r. weight_class r = ''Lightweight'') longer_roster)
      = [''Ann'', ''Bea'', ''Cat'', ''Ann'']"
    by (simp add: longer_roster_def roster_def roster_rows ann_2017_def)
  have "fighter ` {r \<in> set longer_roster. weight_class r = ''Lightweight''}
      = set (map fighter (filter (\<lambda>r. weight_class r = ''Lightweight'') longer_roster))"
    by auto
  then have a: "fighter ` {r \<in> set longer_roster. weight_class r = ''Lightweight''} = {''Ann'', ''Bea'', ''Cat''}"
    unfolding rows by auto
  have b: "''Catchweight'' \<notin> weight_class ` set longer_roster"
    by (simp add: longer_roster_def roster_def roster_rows ann_2017_def)
  have c: "set (fst (getAllFighters longer_service (Some ''Lightweight''))) = {''Ann'', ''Bea'', ''Cat''}"
    using weight_class_filter [OF longer_init, of "''Lightweight''"] a by simp
  have d: "fst (getAllFighters longer_service (Some ''Catchweight'')) = []"
    using weight_class_filter [OF longer_init, of "''Catchweight''"] b by blast
  show ?thesis
    using longer_init b c d by simp
qed

text \<open>
  The claim as the specification words it fails on the roster: Ann is listed under
  Lightweight, where she fought in 2018, while her latest record is at Welterweight.
\<close>

theorem latest_class_counterexample:
  "''Ann'' \<in> set (fst (getAllFighters roster_service (Some ''Lightweight'')))
   \<and> ''Ann'' \<notin> set (fighters_with_latest_class roster_service ''Lightweight'')"
  by (simp add: getAllFighters_def roster_weights fighters_with_latest_class_def roster_latest
      individual_def roster_rows)

section \<open>No filter\<close>

text \<open>
  C10. Without a weight class, or with the empty string, \<open>getAllFighters\<close> returns the full
  fighter tuple, which holds exactly the names of the fighter table; the internal value of
  the "Open Weight" option is the empty string and so lists everyone.
\<close>

theorem no_filter_lists_everyone:
  assumes "init fmt csv sherdog f2n pipe feats = Inr svc"
  shows "getAllFighters svc None = (fighters svc, svc)
         \<and> getAllFighters svc (Some []) = getAllFighters svc None
         \<and> map_of (map prod.swap getWeightClasses) [] = Some ''Open Weight''
         \<and> getAllFighters svc (map_of getWeightClasses ''Open Weight'') = getAllFighters svc None
         \<and> set (fighters svc) = fighter ` set csv"
  using assms by (simp add: getAllFighters_def getWeightClasses_def init_fields(1))

theorem no_filter_lists_everyone_witness:
  "init whole_str roster nicknames roster_labels roster_pipeline roster_features = Inr roster_service
   \<and> fst (getAllFighters roster_service None) = [''Bea'', ''Ann'', ''Cat'', ''Dot'']
   \<and> fst (getAllFighters roster_service (Some [])) = [''Bea'', ''Ann'', ''Cat'', ''Dot'']
   \<and> fst (getAllFighters roster_service (map_of getWeightClasses ''Open Weight'')) =
       [''Bea'', ''Ann'', ''Cat'', ''Dot'']"
  using no_filter_lists_everyone [OF roster_init] by (simp add: roster_init roster_fighters)

section \<open>Names without a single latest snapshot\<close>

lemma getByFighter_pipeline [simp]:
  "getByFighter (svc\<lparr>pipeline := p\<rparr>) a = getByFighter svc a"
  by (simp add: getByFighter_def)

text \<open>
  C8. For two distinct non-empty names of which at least one has no row, or more than one
  row, among the latest fights, the prediction is the sentinel: confidence 100.0, winner
  \<open>"-"\<close>, two empty factor lists. The model is not scored: the result is the same with any
  pipeline \<open>p\<close> in place of the loaded one, also one that raises on every row.
\<close>

theorem unresolved_name_sentinel:
  assumes "a \<noteq> []" and "b \<noteq> []" and "a \<noteq> b"
    and "length (getByFighter svc a) \<noteq> 1 \<or> length (getByFighter svc b) \<noteq> 1"
  shows "doPrediction (svc\<lparr>pipeline := p\<rparr>) (Some a) (Some b) = Inr (100, ''-'', [], [])"
  using assms by (auto simp add: doPrediction_def makeBoutDf_def Let_def)

theorem unresolved_name_sentinel_witness:
  "''Ann'' \<noteq> [] \<and> ''Zed'' \<noteq> [] \<and> ''Ann'' \<noteq> ''Zed''
   \<and> getByFighter roster_service ''Zed'' = []
   \<and> doPrediction (roster_service\<lparr>pipeline := \<lambda>vs. Inl PipelineError\<rparr>) (Some ''Ann'') (Some ''Zed'')
        = Inr (100, ''-'', [], [])"
proof -
  have z: "getByFighter roster_service ''Zed'' = []"
    by (simp add: getByFighter_def roster_latest individual_def roster_rows)
  then have h: "length (getByFighter roster_service ''Ann'') \<noteq> 1
           \<or> length (getByFighter roster_service ''Zed'') \<noteq> 1"
    by simp
  show ?thesis
    using z unresolved_name_sentinel [of "''Ann''" "''Zed''" roster_service "\<lambda>vs. Inl PipelineError", OF _ _ _ h]
    by simp
qed

text \<open>The latest fights hold every fighter once, so a name never resolves to two rows.\<close>

lemma groupby_tail1_subset: "set (groupby_tail1 rs) \<subseteq> set rs"
  by (induction rs) auto

lemma groupby_tail1_distinct: "distinct (map fighter (groupby_tail1 rs))"
proof (induction rs)
  case Nil
  show ?case by simp
next
  case (Cons r rs)
  show ?case
  proof (cases "fighter r \<in> set (map fighter rs)")
    case True
    with Cons.IH show ?thesis by simp
  next
    case False
    moreover have "fighter r \<notin> fighter ` set (groupby_tail1 rs)"
      using False groupby_tail1_subset [of rs] by auto
    ultimately show ?thesis using Cons.IH by simp
  qed
qed

lemma distinct_key_filter: "distinct (map f xs) \<Longrightarrow> length (filter (\<lambda>x. f x = a) xs) \<le> 1"
proof (induction xs)
  case Nil
  show ?case by simp
next
  case (Cons x xs)
  show ?case
  proof (cases "f x = a")
    case True
    then have "filter (\<lambda>y. f y = a) xs = []"
      using Cons.prems by (force simp add: filter_empty_conv image_iff)
    with True show ?thesis by simp
  next
    case False
    with Cons show ?thesis by simp
  qed
qed

lemma getByFighter_at_most_one:
  assumes "init fmt csv sherdog f2n pipe feats = Inr svc"
  shows "length (getByFighter svc a) \<le> 1"
proof -
  have "distinct (map fighter (latest_fights svc))"
    using assms by (simp add: init_fields(3) make_latest_fights_def groupby_tail1_distinct)
  then show ?thesis
    unfolding getByFighter_def by (rule distinct_key_filter)
qed

section \<open>A record without a win count\<close>

text \<open>
  C4 fails on the code for wins and losses. The test \<open>w != np.NaN\<close> is true for every
  \<open>w\<close>, NaN included, so \<open>int(w)\<close> is reached with NaN and raises: with Eve's record in
  the table the service is not constructed.
\<close>

theorem missing_wins_breaks_init:
  "init whole_str (roster @ [eve_2019]) nicknames roster_labels roster_pipeline roster_features
     = Inl ValueError"
proof -
  have "make_latest_fights (roster @ [eve_2019]) =
     [individual cat_2017, individual bea_2019, individual ann_2019, individual dot_2019,
      individual eve_2019]"
    by (simp add: make_latest_fights_def roster_def individual_def roster_rows eve_2019_def)
  moreover have "count_pairs wins
     [individual cat_2017, individual bea_2019, individual ann_2019, individual dot_2019,
      individual eve_2019] = Inl ValueError"
    by (simp add: individual_def roster_rows eve_2019_def fmt_count_def)
  ultimately show ?thesis
    by (simp add: init_def Let_def)
qed

text \<open>
  In general a constructed service has a number in every latest record's wins and losses,
  so the \<open>"-"\<close> of the two count comprehensions is never stored.
\<close>

lemma fmt_count_NaN: "fmt_count NaN = Inl ValueError"
  by (simp add: fmt_count_def)

lemma count_pairs_no_NaN: "count_pairs col rs = Inr kvs \<Longrightarrow> r \<in> set rs \<Longrightarrow> col r \<noteq> NaN"
proof (induction rs arbitrary: kvs)
  case Nil
  then show ?case by simp
next
  case (Cons x xs)
  then show ?case
    by (auto simp add: fmt_count_NaN split: sum.splits)
qed

lemma init_counts_present:
  assumes "init fmt csv sherdog f2n pipe feats = Inr svc" and "r \<in> set (latest_fights svc)"
  shows "wins r \<noteq> NaN \<and> losses r \<noteq> NaN"
  using assms
  by (auto simp add: init_def Let_def split: sum.splits dest: count_pairs_no_NaN)

text \<open>A missing reach or height is stored as \<open>"nan cms"\<close>, which the accessor replaces.\<close>

lemma missing_reach_placeholder: "getReach roster_service ''Dot'' = ''-''"
  by (simp add: getReach_def roster_reach strip_def is_space_def)

section \<open>What a call leaves behind\<close>

text \<open>None of the lookups and no step of the prediction reads the weight-class map.\<close>

lemma makeBoutDf_weight_map [simp]:
  "makeBoutDf (svc\<lparr>weight_to_fighters := m\<rparr>) a b = makeBoutDf svc a b"
  by (simp add: makeBoutDf_def getByFighter_def cong: sum.case_cong)

lemma scoreBout_weight_map [simp]:
  "scoreBout (svc\<lparr>weight_to_fighters := m\<rparr>) bout = scoreBout svc bout"
  by (simp add: scoreBout_def cong: sum.case_cong)

lemma shaps_weight_map [simp]:
  "pos_shaps (svc\<lparr>weight_to_fighters := m\<rparr>) sv = pos_shaps svc sv"
  "neg_shaps (svc\<lparr>weight_to_fighters := m\<rparr>) sv = neg_shaps svc sv"
  by (simp_all add: pos_shaps_def neg_shaps_def label_def)

lemma doPrediction_weight_map [simp]:
  "doPrediction (svc\<lparr>weight_to_fighters := m\<rparr>) r b = doPrediction svc r b"
  by (simp add: doPrediction_def cong: sum.case_cong option.case_cong prod.case_cong)

lemma lookups_weight_map [simp]:
  "getNickname (svc\<lparr>weight_to_fighters := m\<rparr>) f = getNickname svc f"
  "getReach (svc\<lparr>weight_to_fighters := m\<rparr>) f = getReach svc f"
  "getHeight (svc\<lparr>weight_to_fighters := m\<rparr>) f = getHeight svc f"
  "getWins (svc\<lparr>weight_to_fighters := m\<rparr>) f = getWins svc f"
  "getLosses (svc\<lparr>weight_to_fighters := m\<rparr>) f = getLosses svc f"
  by (simp_all add: getNickname_def getReach_def getHeight_def getWins_def getLosses_def)







section \<open>The bouts of the roster\<close>

lemma roster_individual:
  "individual ann_2019 = ann_2019\<lparr>stats := [(''avg_KD'', Val 1)]\<rparr>"
  "individual bea_2019 = bea_2019\<lparr>stats := [(''avg_KD'', Val 0)]\<rparr>"
  "individual cat_2017 = cat_2017\<lparr>stats := [(''avg_KD'', Val 0)]\<rparr>"
  "individual dot_2019 = dot_2019\<lparr>stats := [(''avg_KD'', Val 0)]\<rparr>"
  by (simp_all add: individual_def roster_rows prefix_re_match_def sublist_code(3))

lemma roster_snapshots:
  "getByFighter roster_service ''Ann'' = [ann_2019\<lparr>stats := [(''avg_KD'', Val 1)]\<rparr>]"
  "getByFighter roster_service ''Bea'' = [bea_2019\<lparr>stats := [(''avg_KD'', Val 0)]\<rparr>]"
  "getByFighter roster_service ''Cat'' = [cat_2017\<lparr>stats := [(''avg_KD'', Val 0)]\<rparr>]"
  by (simp_all add: getByFighter_def roster_latest roster_individual) (simp_all add: roster_rows)

lemma opponent_columns_merge:
  "opponent_columns (merge (r\<lparr>stats := [(''avg_KD'', x)]\<rparr>) (r'\<lparr>stats := [(''avg_KD'', y)]\<rparr>)) =
     [''Reach_cms_opponent'', ''Height_cms_opponent'', ''wins_opponent'', ''losses_opponent'',
      ''avg_KD_opponent'']"
  by (simp add: opponent_columns_def merge_def columns_def suffix_to_prefix)

lemma add_ratios_merge:
  "add_ratios
     [''Reach_cms_opponent'', ''Height_cms_opponent'', ''wins_opponent'', ''losses_opponent'',
      ''avg_KD_opponent'']
     (merge (r\<lparr>stats := [(''avg_KD'', x)]\<rparr>) (r'\<lparr>stats := [(''avg_KD'', y)]\<rparr>)) =
   Inr (merge (r\<lparr>stats := [(''avg_KD'', x)]\<rparr>) (r'\<lparr>stats := [(''avg_KD'', y)]\<rparr>) @
     [(''Reach_cms_ratio'', Numv (cell_div (cell_add (Reach_cms r) (Val 1)) (cell_add (Reach_cms r') (Val 1)))),
      (''Height_cms_ratio'', Numv (cell_div (cell_add (Height_cms r) (Val 1)) (cell_add (Height_cms r') (Val 1)))),
      (''wins_ratio'', Numv (cell_div (cell_add (wins r) (Val 1)) (cell_add (wins r') (Val 1)))),
      (''losses_ratio'', Numv (cell_div (cell_add (losses r) (Val 1)) (cell_add (losses r') (Val 1)))),
      (''avg_KD_ratio'', Numv (cell_div (cell_add x (Val 1)) (cell_add y (Val 1))))])"
  by (simp add: add_ratio_def merge_def columns_def)

lemma select_roster:
  "\<exists>row. bout_row (r\<lparr>stats := [(''avg_KD'', x)]\<rparr>) (r'\<lparr>stats := [(''avg_KD'', y)]\<rparr>) = Inr row
     \<and> select roster_features row =
       Inr [Numv (cell_div (cell_add (Reach_cms r) (Val 1)) (cell_add (Reach_cms r') (Val 1))),
            Numv (cell_div (cell_add (wins r) (Val 1)) (cell_add (wins r') (Val 1)))]"
  unfolding bout_row_def Let_def opponent_columns_merge add_ratios_merge
  by (simp add: merge_def columns_def roster_features_def)

lemma roster_model:
  "features roster_service = roster_features"
  "pipeline roster_service = roster_pipeline"
  "feature_to_name roster_service = roster_labels"
  by (simp_all add: roster_service_eq)

lemma roster_factors:
  "pos_shaps roster_service roster_shap = [''Height'', ''Wins'', ''Wins'']"
  "neg_shaps roster_service roster_shap = [''Reach'', ''Reach'', ''Height'']"
  by (simp_all add: pos_shaps_def neg_shaps_def label_def roster_model roster_labels_def
      roster_shap_def strip_def is_space_def)

lemma roster_bout_scores:
  assumes "getByFighter roster_service a = [r\<lparr>stats := [(''avg_KD'', k)]\<rparr>]"
    and "getByFighter roster_service b = [r'\<lparr>stats := [(''avg_KD'', k')]\<rparr>]"
  shows "bout_scores roster_service a b =
     (case roster_pipeline
             [Numv (cell_div (cell_add (Reach_cms r) (Val 1)) (cell_add (Reach_cms r') (Val 1))),
              Numv (cell_div (cell_add (wins r) (Val 1)) (cell_add (wins r') (Val 1)))] of
        Inl e \<Rightarrow> Inl e
      | Inr s0 \<Rightarrow>
          (case roster_pipeline
                  [Numv (cell_div (cell_add (Reach_cms r') (Val 1)) (cell_add (Reach_cms r) (Val 1))),
                   Numv (cell_div (cell_add (wins r') (Val 1)) (cell_add (wins r) (Val 1)))] of
             Inl e \<Rightarrow> Inl e
           | Inr s1 \<Rightarrow> Inr (Some (s0, s1))))"
proof -
  obtain row1 where row1: "bout_row (r\<lparr>stats := [(''avg_KD'', k)]\<rparr>) (r'\<lparr>stats := [(''avg_KD'', k')]\<rparr>) = Inr row1"
    and sel1: "select roster_features row1 =
       Inr [Numv (cell_div (cell_add (Reach_cms r) (Val 1)) (cell_add (Reach_cms r') (Val 1))),
            Numv (cell_div (cell_add (wins r) (Val 1)) (cell_add (wins r') (Val 1)))]"
    using select_roster [where r = r and x = k and r' = r' and y = k'] by blast
  obtain row2 where row2: "bout_row (r'\<lparr>stats := [(''avg_KD'', k')]\<rparr>) (r\<lparr>stats := [(''avg_KD'', k)]\<rparr>) = Inr row2"
    and sel2: "select roster_features row2 =
       Inr [Numv (cell_div (cell_add (Reach_cms r') (Val 1)) (cell_add (Reach_cms r) (Val 1))),
            Numv (cell_div (cell_add (wins r') (Val 1)) (cell_add (wins r) (Val 1)))]"
    using select_roster [where r = r' and x = k' and r' = r and y = k] by blast
  have "makeBoutDf roster_service a b = Inr (Some (row1, row2))"
    by (simp add: makeBoutDf_def assms row1 row2)
  then show ?thesis
    by (simp add: bout_scores_def scoreBout_def roster_model sel1 sel2 split: sum.splits)
qed

lemma roster_scored:
  "bout_scores roster_service ''Ann'' ''Bea'' = Inr (Some (roster_score (7 / 10), roster_score (3 / 10)))"
  "bout_scores roster_service ''Bea'' ''Cat'' = Inr (Some (roster_score (1 / 2), roster_score (1 / 2)))"
  "bout_scores roster_service ''Cat'' ''Bea'' = Inr (Some (roster_score (1 / 2), roster_score (1 / 2)))"
  by (simp_all add: roster_bout_scores [OF roster_snapshots(1) roster_snapshots(2)]
      roster_bout_scores [OF roster_snapshots(2) roster_snapshots(3)]
      roster_bout_scores [OF roster_snapshots(3) roster_snapshots(2)]
      roster_rows roster_pipeline_def)

section \<open>The scored path\<close>

lemma bout_scores_SomeD:
  assumes "bout_scores svc a b = Inr (Some s)"
  shows "\<exists>bout. makeBoutDf svc a b = Inr (Some bout) \<and> scoreBout svc bout = Inr s"
proof (cases "makeBoutDf svc a b")
  case (Inl e)
  with assms show ?thesis by (simp add: bout_scores_def)
next
  case (Inr ob)
  show ?thesis
  proof (cases ob)
    case None
    with Inr assms show ?thesis by (simp add: bout_scores_def)
  next
    case (Some bout)
    show ?thesis
    proof (cases "scoreBout svc bout")
      case (Inl e)
      with Inr Some assms show ?thesis by (simp add: bout_scores_def)
    next
      case (Inr s')
      with \<open>makeBoutDf svc a b = Inr ob\<close> Some assms show ?thesis by (simp add: bout_scores_def)
    qed
  qed
qed

lemma doPrediction_scored:
  assumes "a \<noteq> []" and "b \<noteq> []" and "a \<noteq> b"
    and "bout_scores svc a b = Inr (Some (s0, s1))"
  shows "doPrediction svc (Some a) (Some b) =
     (if (proba_True s0 + proba_False s1) / 2 > (proba_False s0 + proba_True s1) / 2
      then Inr ((proba_True s0 + proba_False s1) / 2 * 100, a,
                pos_shaps svc (shap_True s0), neg_shaps svc (shap_True s0))
      else Inr ((proba_False s0 + proba_True s1) / 2 * 100, b,
                pos_shaps svc (shap_True s1), neg_shaps svc (shap_True s1)))"
proof -
  obtain bout where "makeBoutDf svc a b = Inr (Some bout)" and "scoreBout svc bout = Inr (s0, s1)"
    using bout_scores_SomeD [OF assms(4)] by blast
  with assms(1-3) show ?thesis
    by (simp add: doPrediction_def Let_def)
qed

lemma makeBoutDf_swap:
  "makeBoutDf svc a b = Inr (Some (row1, row2)) \<Longrightarrow> makeBoutDf svc b a = Inr (Some (row2, row1))"
  by (auto simp add: makeBoutDf_def Let_def split: if_splits sum.splits)

lemma scoreBout_swap:
  "scoreBout svc (row1, row2) = Inr (s0, s1) \<Longrightarrow> scoreBout svc (row2, row1) = Inr (s1, s0)"
  by (auto simp add: scoreBout_def split: sum.splits)

lemma bout_scores_swap:
  assumes "bout_scores svc a b = Inr (Some (s0, s1))"
  shows "bout_scores svc b a = Inr (Some (s1, s0))"
proof -
  obtain bout where bout: "makeBoutDf svc a b = Inr (Some bout)" "scoreBout svc bout = Inr (s0, s1)"
    using bout_scores_SomeD [OF assms] by blast
  obtain row1 row2 where rows: "bout = (row1, row2)"
    by (cases bout)
  have "makeBoutDf svc b a = Inr (Some (row2, row1))"
    using bout(1) rows by (simp add: makeBoutDf_swap [of svc a b row1 row2])
  moreover have "scoreBout svc (row2, row1) = Inr (s1, s0)"
    using bout(2) rows by (simp add: scoreBout_swap [of svc row1 row2 s0 s1])
  ultimately show ?thesis
    by (simp add: bout_scores_def)
qed

lemma roster_ann_bea:
  "doPrediction roster_service (Some ''Ann'') (Some ''Bea'') =
     Inr (70, ''Ann'', [''Height'', ''Wins'', ''Wins''], [''Reach'', ''Reach'', ''Height''])"
  by (simp add: doPrediction_scored [OF _ _ _ roster_scored(1)] roster_score_def roster_factors)

lemma roster_bea_ann:
  "doPrediction roster_service (Some ''Bea'') (Some ''Ann'') =
     Inr (70, ''Ann'', [''Height'', ''Wins'', ''Wins''], [''Reach'', ''Reach'', ''Height''])"
  by (simp add: doPrediction_scored [OF _ _ _ bout_scores_swap [OF roster_scored(1)]]
      roster_score_def roster_factors)

lemma roster_bea_cat:
  "doPrediction roster_service (Some ''Bea'') (Some ''Cat'') =
     Inr (50, ''Cat'', [''Height'', ''Wins'', ''Wins''], [''Reach'', ''Reach'', ''Height''])"
  by (simp add: doPrediction_scored [OF _ _ _ roster_scored(2)] roster_score_def roster_factors)

lemma roster_cat_bea:
  "doPrediction roster_service (Some ''Cat'') (Some ''Bea'') =
     Inr (50, ''Bea'', [''Height'', ''Wins'', ''Wins''], [''Reach'', ''Reach'', ''Height''])"
  by (simp add: doPrediction_scored [OF _ _ _ roster_scored(3)] roster_score_def roster_factors)

section \<open>Argument order\<close>

text \<open>
  C1, as the code has it. For two distinct non-empty names whose bout is built and scored,
  the two argument orders return the same prediction, and so the same winner, whenever
  the two averaged probabilities differ. When they are equal, the comparison
  \<open>red_fighter_prob > blue_fighter_prob\<close> fails in both orders and each call declares its
  second argument the winner.
\<close>

theorem winner_order_independent:
  assumes "a \<noteq> []" and "b \<noteq> []" and "a \<noteq> b"
    and "bout_scores svc a b = Inr (Some (s0, s1))"
  shows "((proba_False s0 + proba_True s1) / 2 < (proba_True s0 + proba_False s1) / 2 \<longrightarrow>
            doPrediction svc (Some a) (Some b) =
              Inr ((proba_True s0 + proba_False s1) / 2 * 100, a,
                   pos_shaps svc (shap_True s0), neg_shaps svc (shap_True s0))
            \<and> doPrediction svc (Some b) (Some a) = doPrediction svc (Some a) (Some b))
       \<and> ((proba_True s0 + proba_False s1) / 2 < (proba_False s0 + proba_True s1) / 2 \<longrightarrow>
            doPrediction svc (Some a) (Some b) =
              Inr ((proba_False s0 + proba_True s1) / 2 * 100, b,
                   pos_shaps svc (shap_True s1), neg_shaps svc (shap_True s1))
            \<and> doPrediction svc (Some b) (Some a) = doPrediction svc (Some a) (Some b))
       \<and> ((proba_True s0 + proba_False s1) / 2 = (proba_False s0 + proba_True s1) / 2 \<longrightarrow>
            doPrediction svc (Some a) (Some b) =
              Inr ((proba_False s0 + proba_True s1) / 2 * 100, b,
                   pos_shaps svc (shap_True s1), neg_shaps svc (shap_True s1))
            \<and> doPrediction svc (Some b) (Some a) =
              Inr ((proba_True s0 + proba_False s1) / 2 * 100, a,
                   pos_shaps svc (shap_True s0), neg_shaps svc (shap_True s0)))"
proof -
  have ab: "doPrediction svc (Some a) (Some b) =
     (if (proba_True s0 + proba_False s1) / 2 > (proba_False s0 + proba_True s1) / 2
      then Inr ((proba_True s0 + proba_False s1) / 2 * 100, a,
                pos_shaps svc (shap_True s0), neg_shaps svc (shap_True s0))
      else Inr ((proba_False s0 + proba_True s1) / 2 * 100, b,
                pos_shaps svc (shap_True s1), neg_shaps svc (shap_True s1)))"
    using assms by (rule doPrediction_scored)
  have "b \<noteq> a"
    using assms(3) by simp
  then have ba: "doPrediction svc (Some b) (Some a) =
     (if (proba_True s1 + proba_False s0) / 2 > (proba_False s1 + proba_True s0) / 2
      then Inr ((proba_True s1 + proba_False s0) / 2 * 100, b,
                pos_shaps svc (shap_True s1), neg_shaps svc (shap_True s1))
      else Inr ((proba_False s1 + proba_True s0) / 2 * 100, a,
                pos_shaps svc (shap_True s0), neg_shaps svc (shap_True s0)))"
    using assms(1,2) bout_scores_swap [OF assms(4)] by (intro doPrediction_scored)
  have red: "(proba_False s1 + proba_True s0) / 2 = (proba_True s0 + proba_False s1) / 2"
    and blue: "(proba_True s1 + proba_False s0) / 2 = (proba_False s0 + proba_True s1) / 2"
    by (simp_all add: add.commute)
  show ?thesis
    unfolding ab ba red blue by simp
qed

theorem winner_order_independent_witness:
  "''Ann'' \<noteq> [] \<and> ''Bea'' \<noteq> [] \<and> ''Ann'' \<noteq> ''Bea''
   \<and> bout_scores roster_service ''Ann'' ''Bea'' = Inr (Some (roster_score (7 / 10), roster_score (3 / 10)))
   \<and> (proba_False (roster_score (7 / 10)) + proba_True (roster_score (3 / 10))) / 2
       < (proba_True (roster_score (7 / 10)) + proba_False (roster_score (3 / 10))) / 2
   \<and> doPrediction roster_service (Some ''Ann'') (Some ''Bea'') =
       Inr (70, ''Ann'', [''Height'', ''Wins'', ''Wins''], [''Reach'', ''Reach'', ''Height''])
   \<and> doPrediction roster_service (Some ''Bea'') (Some ''Ann'') =
       Inr (70, ''Ann'', [''Height'', ''Wins'', ''Wins''], [''Reach'', ''Reach'', ''Height''])"
proof -
  have lt: "(proba_False (roster_score (7 / 10)) + proba_True (roster_score (3 / 10))) / 2
       < (proba_True (roster_score (7 / 10)) + proba_False (roster_score (3 / 10))) / 2"
    by (simp add: roster_score_def)
  have names: "''Ann'' \<noteq> []" "''Bea'' \<noteq> []" "''Ann'' \<noteq> ''Bea''"
    by simp_all
  have "doPrediction roster_service (Some ''Ann'') (Some ''Bea'') =
          Inr ((proba_True (roster_score (7 / 10)) + proba_False (roster_score (3 / 10))) / 2 * 100, ''Ann'',
               pos_shaps roster_service (shap_True (roster_score (7 / 10))),
               neg_shaps roster_service (shap_True (roster_score (7 / 10))))
        \<and> doPrediction roster_service (Some ''Bea'') (Some ''Ann'') =
            doPrediction roster_service (Some ''Ann'') (Some ''Bea'')"
    using winner_order_independent [OF names roster_scored(1)] lt by blast
  then show ?thesis
    using lt roster_scored(1) by (simp add: roster_score_def roster_factors)
qed

text \<open>
  The claim as the specification words it fails on the roster: Bea and Cat have the same
  reach and the same wins, the model gives both rows even odds, and each order declares its
  second fighter.
\<close>

theorem tie_counterexample:
  "getByFighter roster_service ''Bea'' = [bea_2019\<lparr>stats := [(''avg_KD'', Val 0)]\<rparr>]
   \<and> getByFighter roster_service ''Cat'' = [cat_2017\<lparr>stats := [(''avg_KD'', Val 0)]\<rparr>]
   \<and> doPrediction roster_service (Some ''Bea'') (Some ''Cat'') =
       Inr (50, ''Cat'', [''Height'', ''Wins'', ''Wins''], [''Reach'', ''Reach'', ''Height''])
   \<and> doPrediction roster_service (Some ''Cat'') (Some ''Bea'') =
       Inr (50, ''Bea'', [''Height'', ''Wins'', ''Wins''], [''Reach'', ''Reach'', ''Height''])"
  by (simp add: roster_snapshots roster_bea_cat roster_cat_bea)

section \<open>The factor lists\<close>

lemma shaps_length: "length (pos_shaps svc sv) \<le> 3" "length (neg_shaps svc sv) \<le> 3"
  by (simp_all add: pos_shaps_def neg_shaps_def Let_def)

lemma doPrediction_lengths:
  assumes "doPrediction svc r b = Inr (c, w, pos, neg)"
  shows "length pos \<le> 3 \<and> length neg \<le> 3"
proof (cases "truthy r \<and> truthy b \<and> r \<noteq> b")
  case False
  with assms show ?thesis
    by (auto simp add: doPrediction_def split: if_splits)
next
  case True
  show ?thesis
  proof (cases "makeBoutDf svc (the r) (the b)")
    case (Inl e)
    with True assms show ?thesis by (simp add: doPrediction_def)
  next
    case (Inr ob)
    show ?thesis
    proof (cases ob)
      case None
      with Inr True assms show ?thesis by (auto simp add: doPrediction_def)
    next
      case (Some bout)
      show ?thesis
      proof (cases "scoreBout svc bout")
        case (Inl e)
        with \<open>makeBoutDf svc (the r) (the b) = Inr ob\<close> Some True assms show ?thesis
          by (simp add: doPrediction_def)
      next
        case (Inr ss)
        obtain s0 s1 where ss: "ss = (s0, s1)" by (cases ss)
        from \<open>makeBoutDf svc (the r) (the b) = Inr ob\<close> Some Inr ss True assms
        have "(pos = pos_shaps svc (shap_True s0) \<and> neg = neg_shaps svc (shap_True s0))
              \<or> (pos = pos_shaps svc (shap_True s1) \<and> neg = neg_shaps svc (shap_True s1))"
          by (auto simp add: doPrediction_def Let_def split: if_splits)
        then show ?thesis
          using shaps_length by auto
      qed
    qed
  qed
qed

lemma bullets_distinct: "distinct (bullets x1 x2 x3) \<and> length (bullets x1 x2 x3) \<le> 3"
  by (simp add: bullets_def)

text \<open>
  C2, as the code has it. The supporting and the opposing list that \<open>doPrediction\<close> returns
  have at most 3 entries each. They are not deduplicated; it is the page that prints a
  label once per list: under each of its two headings the bullets are at most 3 and no
  label is printed twice.
\<close>

theorem factor_lists_at_most_three:
  "(doPrediction svc r b = Inr (c, w, pos, neg) \<longrightarrow> length pos \<le> 3 \<and> length neg \<le> 3)
   \<and> (makePrediction svc r b = Inr (Some pg) \<longrightarrow>
         length (in_favor pg) \<le> 3 \<and> length (counter_arguments pg) \<le> 3
         \<and> distinct (in_favor pg) \<and> distinct (counter_arguments pg))"
proof (intro conjI impI)
  assume "doPrediction svc r b = Inr (c, w, pos, neg)"
  then have "length pos \<le> 3 \<and> length neg \<le> 3" by (rule doPrediction_lengths)
  then show "length pos \<le> 3" and "length neg \<le> 3" by simp_all
next
  assume pg: "makePrediction svc r b = Inr (Some pg)"
  then have "length (in_favor pg) \<le> 3 \<and> length (counter_arguments pg) \<le> 3
     \<and> distinct (in_favor pg) \<and> distinct (counter_arguments pg)"
    by (auto simp add: makePrediction_def bullets_distinct split: sum.splits prod.splits if_splits)
  then show "length (in_favor pg) \<le> 3" and "length (counter_arguments pg) \<le> 3"
    and "distinct (in_favor pg)" and "distinct (counter_arguments pg)"
    by simp_all
qed

theorem factor_lists_at_most_three_witness:
  "doPrediction roster_service (Some ''Ann'') (Some ''Bea'') =
     Inr (70, ''Ann'', [''Height'', ''Wins'', ''Wins''], [''Reach'', ''Reach'', ''Height''])
   \<and> length [''Height'', ''Wins'', ''Wins''] \<le> 3 \<and> length [''Reach'', ''Reach'', ''Height''] \<le> 3
   \<and> makePrediction roster_service (Some ''Ann'') (Some ''Bea'') =
       Inr (Some \<lparr> winner_line = ''Ann'', confidence_line = 70,
                   in_favor = [''Height'', ''Wins''], counter_arguments = [''Height'', ''Reach''] \<rparr>)
   \<and> distinct [''Height'', ''Wins''] \<and> distinct [''Height'', ''Reach'']"
proof -
  have mp: "makePrediction roster_service (Some ''Ann'') (Some ''Bea'') =
       Inr (Some \<lparr> winner_line = ''Ann'', confidence_line = 70,
                   in_favor = [''Height'', ''Wins''], counter_arguments = [''Height'', ''Reach''] \<rparr>)"
    by (simp add: makePrediction_def roster_ann_bea bullets_def)
  show ?thesis
    using factor_lists_at_most_three [of roster_service "Some ''Ann''" "Some ''Bea''" 70 "''Ann''"
        "[''Height'', ''Wins'', ''Wins'']" "[''Reach'', ''Reach'', ''Height'']"
        "\<lparr> winner_line = ''Ann'', confidence_line = 70,
           in_favor = [''Height'', ''Wins''], counter_arguments = [''Height'', ''Reach''] \<rparr>"]
      roster_ann_bea mp
    by simp
qed

text \<open>
  The claim as the specification words it fails on the roster: the lists returned for Ann
  against Bea repeat a label within each list, and one label stands in both.
\<close>

theorem repeated_label_counterexample:
  "doPrediction roster_service (Some ''Ann'') (Some ''Bea'') =
     Inr (70, ''Ann'', [''Height'', ''Wins'', ''Wins''], [''Reach'', ''Reach'', ''Height''])
   \<and> \<not> distinct [''Height'', ''Wins'', ''Wins'']
   \<and> \<not> distinct [''Reach'', ''Reach'', ''Height'']
   \<and> ''Height'' \<in> set [''Height'', ''Wins'', ''Wins''] \<inter> set [''Reach'', ''Reach'', ''Height'']"
  by (simp add: roster_ann_bea)

end
